theory Spec2Isabelle
  imports Main
begin

section \<open>The GraphQL syntax tree and the schema\<close>

text \<open>
  A type reference of the schema language (\<^verbatim>\<open>TypeNode\<close> of graphql-js): a named type,
  a list type or a non-null type. \<^verbatim>\<open>field.type.kind === Kind.NON_NULL_TYPE\<close> is
  \<open>isNonNullType\<close>, \<^verbatim>\<open>Kind.LIST_TYPE\<close> is \<open>isListType\<close>.
\<close>

datatype TypeNode = NamedType string | ListType TypeNode | NonNullType TypeNode

fun isNonNullType :: "TypeNode \<Rightarrow> bool" where
  "isNonNullType (NonNullType t) = True"
| "isNonNullType t = False"

fun isListType :: "TypeNode \<Rightarrow> bool" where
  "isListType (ListType t) = True"
| "isListType t = False"

text \<open>
  \<^verbatim>\<open>InputValueDefinitionNode\<close>: \<open>field_name\<close> is \<^verbatim>\<open>field.name.value\<close>, \<open>field_type\<close> is
  \<^verbatim>\<open>field.type\<close>. \<^verbatim>\<open>InputObjectTypeDefinitionNode\<close>: \<open>node_name\<close> is
  \<^verbatim>\<open>node.name.value\<close>, \<open>node_fields\<close> is \<^verbatim>\<open>node.fields\<close>.
\<close>

record InputValueDefinitionNode =
  field_name :: string
  field_type :: TypeNode

record InputObjectTypeDefinitionNode =
  node_name :: string
  node_fields :: "InputValueDefinitionNode list"

text \<open>
  What \<^verbatim>\<open>schema.getType(name)\<close> returns: a named type of one of the kinds the visitor
  tests for (\<^verbatim>\<open>isScalarType\<close>, \<^verbatim>\<open>isInputObjectType\<close>, \<^verbatim>\<open>isEnumType\<close>), or of another
  kind (object, interface, union), each with its \<^verbatim>\<open>name\<close>; \<open>None\<close> is \<^verbatim>\<open>undefined\<close>.
\<close>

datatype GraphQLNamedType =
  ScalarType string | InputObjectType string | EnumType string | OtherType string

fun type_name :: "GraphQLNamedType \<Rightarrow> string" where
  "type_name (ScalarType n) = n"
| "type_name (InputObjectType n) = n"
| "type_name (EnumType n) = n"
| "type_name (OtherType n) = n"

type_synonym GraphQLSchema = "string \<Rightarrow> GraphQLNamedType option"

text \<open>
  Reading \<^verbatim>\<open>schemaType.name\<close> off \<^verbatim>\<open>undefined\<close> throws a \<^verbatim>\<open>TypeError\<close>: the only
  exception the visitor's own code can raise.
\<close>

datatype error = TypeError

section \<open>Collaborators that the visitor imports\<close>

text \<open>
  \<^verbatim>\<open>JavaDeclarationBlock\<close> (java-common) is a builder whose \<^verbatim>\<open>string\<close> getter prints
  the block. The record holds what the visitor's calls set; the printer itself is a
  parameter (\<open>block_string\<close> below).
\<close>

record JavaDeclarationBlock =
  block_annotations :: "string list"
  block_access :: string
  block_final :: bool
  block_static :: bool
  block_kind :: string
  block_name :: string
  block_body :: string
  block_implements :: "string list"

text \<open>
  The helper functions of visitor-plugin-common and java-common, taken as parameters:
  every theorem below holds for any such functions. The count argument of \<open>indent\<close> and
  \<open>indentMultiline\<close> is optional in the calls (\<open>None\<close> when the call leaves it out).
  \<open>wrapTypeWithModifiers\<close> is declared on a string base type; the visitor can also hand it
  a member inherited from \<^verbatim>\<open>Object.prototype\<close> (see \<open>js_index\<close> below), and
  \<open>wrapTypeWithModifiers_member\<close> is what it returns then, for the member of that name:
  a string, or \<open>None\<close> for a value that is not a string.
\<close>

record helpers =
  indent :: "string \<Rightarrow> nat option \<Rightarrow> string"
  indentMultiline :: "string \<Rightarrow> nat option \<Rightarrow> string"
  wrapTypeWithModifiers :: "string \<Rightarrow> TypeNode \<Rightarrow> string \<Rightarrow> string"
  wrapTypeWithModifiers_member :: "string \<Rightarrow> TypeNode \<Rightarrow> string \<Rightarrow> string option"
  block_string :: "JavaDeclarationBlock \<Rightarrow> string"

text \<open>
  The table \<^verbatim>\<open>Imports\<close> of \<^verbatim>\<open>./imports\<close>, taken as a parameter. The entries the visitor
  reads by name (\<^verbatim>\<open>Imports.Input\<close>, ...) are fields: the compiler checks that they
  exist. \<open>Imports_at\<close> holds the table's own entries, for the dynamic look-up
  \<^verbatim>\<open>Imports[scalar]\<close> (through \<open>js_index\<close> below).
\<close>

record ImportsTable =
  Imports_List :: string
  Imports_Input :: string
  Imports_NonNull :: string
  Imports_Override :: string
  Imports_IOException :: string
  Imports_InputFieldWriter :: string
  Imports_InputFieldMarshaller :: string
  Imports_Utils :: string
  Imports_Nullable :: string
  Imports_InputType :: string
  Imports_Generated :: string
  Imports_at :: "string \<Rightarrow> string option"

text \<open>
  Modelled from the spec: \<^verbatim>\<open>getBaseTypeNode\<close> (visitor-plugin-common, not among the
  sources) "unwraps to the base named type"; the visitor reads only its
  \<^verbatim>\<open>name.value\<close>, which is what the function returns here.
\<close>

fun getBaseTypeNode :: "TypeNode \<Rightarrow> string" where
  "getBaseTypeNode (NamedType n) = n"
| "getBaseTypeNode (ListType t) = getBaseTypeNode t"
| "getBaseTypeNode (NonNullType t) = getBaseTypeNode t"

section \<open>JavaScript values and strings\<close>

text \<open>
  What indexing a plain object whose own entries are strings can yield: a string, a
  member inherited from \<^verbatim>\<open>Object.prototype\<close> (named by its key; a function, or for
  \<^verbatim>\<open>__proto__\<close> the prototype object: never a string, always truthy), or
  \<^verbatim>\<open>undefined\<close>.
\<close>

datatype js_value = JSString string | JSMember string | JSUndefined

text \<open>The property names of \<^verbatim>\<open>Object.prototype\<close> (ECMAScript, with its Annex B).\<close>

definition Object_prototype_members :: "string list" where
  "Object_prototype_members =
     [''constructor'', ''hasOwnProperty'', ''isPrototypeOf'', ''propertyIsEnumerable'',
      ''toLocaleString'', ''toString'', ''valueOf'', ''__proto__'', ''__defineGetter__'',
      ''__defineSetter__'', ''__lookupGetter__'', ''__lookupSetter__'']"

text \<open>
  \<^verbatim>\<open>obj[key]\<close> on an object literal (or an object built by spreading into one) with the
  own entries \<open>own\<close>: an own entry first, then the prototype's member of that name.
\<close>

definition js_index :: "(string \<Rightarrow> string option) \<Rightarrow> string \<Rightarrow> js_value" where
  "js_index own key =
     (case own key of
        Some s \<Rightarrow> JSString s
      | None \<Rightarrow> if key \<in> set Object_prototype_members then JSMember key else JSUndefined)"

text \<open>\<^verbatim>\<open>v || d\<close> with a string default: the empty string and \<^verbatim>\<open>undefined\<close> are falsy.\<close>

definition js_or :: "js_value \<Rightarrow> string \<Rightarrow> js_value" where
  "js_or v d =
     (case v of
        JSString s \<Rightarrow> if s = [] then JSString d else JSString s
      | JSMember k \<Rightarrow> JSMember k
      | JSUndefined \<Rightarrow> JSString d)"

text \<open>
  \<^verbatim>\<open>v || d\<close> for an own entry or \<^verbatim>\<open>undefined\<close>: what \<open>js_or (js_index own key) d\<close> is
  at a key that \<^verbatim>\<open>Object.prototype\<close> does not hold.
\<close>

definition or_else :: "string option \<Rightarrow> string \<Rightarrow> string" where
  "or_else v d = (case v of None \<Rightarrow> d | Some s \<Rightarrow> if s = [] then d else s)"

text \<open>\<^verbatim>\<open>String.prototype.includes\<close>: \<open>sub\<close> occurs in \<open>s\<close>.\<close>

fun str_includes :: "string \<Rightarrow> string \<Rightarrow> bool" where
  "str_includes [] sub = (sub = [])"
| "str_includes (c # cs) sub = (take (length sub) (c # cs) = sub \<or> str_includes cs sub)"

text \<open>\<^verbatim>\<open>Array.prototype.join\<close> on an array of strings.\<close>

fun join :: "string \<Rightarrow> string list \<Rightarrow> string" where
  "join sep [] = []"
| "join sep [x] = x"
| "join sep (x # y # ys) = x @ sep @ join sep (y # ys)"

text \<open>
  What a template literal prints for a value, and what a value is as a property key:
  a string as it is, \<^verbatim>\<open>undefined\<close> as the text \<open>undefined\<close>, and an inherited member as
  the engine prints it (\<open>member_text\<close>, a parameter: the text of a native function is
  left to the engine).
\<close>

definition js_text :: "(string \<Rightarrow> string) \<Rightarrow> js_value \<Rightarrow> string" where
  "js_text member_text v =
     (case v of JSString s \<Rightarrow> s | JSMember k \<Rightarrow> member_text k | JSUndefined \<Rightarrow> ''undefined'')"

text \<open>
  \<open>writerMethod\<close> is \<^verbatim>\<open>null\<close> or a value; a template literal prints \<^verbatim>\<open>null\<close> as the
  text \<open>null\<close>.
\<close>

definition template_str :: "(string \<Rightarrow> string) \<Rightarrow> js_value option \<Rightarrow> string" where
  "template_str member_text v = (case v of None \<Rightarrow> ''null'' | Some w \<Rightarrow> js_text member_text w)"

section \<open>The visitor and its import set\<close>

text \<open>
  The members of a \<^verbatim>\<open>JavaApolloAndroidVisitor\<close> that never change after construction:
  the schema, the parsed configuration (\<^verbatim>\<open>config.package\<close>, which the constructor
  has resolved from the raw configuration or the working directory, and the own
  entries of \<^verbatim>\<open>config.scalars\<close>, a plain object) and the collaborators; with them,
  \<open>member_text\<close>: how the engine that runs the visitor prints the inherited member of a
  given name.
\<close>

record JavaApolloAndroidVisitor =
  schema :: GraphQLSchema
  config_package :: string
  config_scalars :: "string \<Rightarrow> string option"
  Imports :: ImportsTable
  lib :: helpers
  member_text :: "string \<Rightarrow> string"

text \<open>
  The one mutable member, \<^verbatim>\<open>_imports\<close>, is a JavaScript \<^verbatim>\<open>Set\<close> of strings: its
  elements in insertion order, none twice. \<open>set_add\<close> is \<^verbatim>\<open>Set.prototype.add\<close>.
\<close>

type_synonym ImportSet = "string list"

definition set_add :: "string \<Rightarrow> ImportSet \<Rightarrow> ImportSet" where
  "set_add x s = (if x \<in> set s then s else s @ [x])"

text \<open>
  A method of the visitor takes the import set and returns its result, or the
  exception it threw, with the import set as it left it.
\<close>

type_synonym 'a emit = "ImportSet \<Rightarrow> (error + 'a) \<times> ImportSet"

definition ret :: "'a \<Rightarrow> 'a emit" where
  "ret x s = (Inr x, s)"

definition throw :: "error \<Rightarrow> 'a emit" where
  "throw e s = (Inl e, s)"

definition add :: "string \<Rightarrow> unit emit" where
  "add x s = (Inr (), set_add x s)"

definition and_then :: "'a emit \<Rightarrow> ('a \<Rightarrow> 'b emit) \<Rightarrow> 'b emit" where
  "and_then m f s = (case m s of (Inl e, s') \<Rightarrow> (Inl e, s') | (Inr x, s') \<Rightarrow> f x s')"

text \<open>\<^verbatim>\<open>Array.prototype.map\<close> with a callback that may add imports or throw.\<close>

fun mapM :: "('a \<Rightarrow> 'b emit) \<Rightarrow> 'a list \<Rightarrow> 'b list emit" where
  "mapM f [] = ret []"
| "mapM f (x # xs) = and_then (f x) (\<lambda>y. and_then (mapM f xs) (\<lambda>ys. ret (y # ys)))"

text \<open>The getter \<^verbatim>\<open>imports\<close>.\<close>

definition imports_of :: "ImportSet \<Rightarrow> string list" where
  "imports_of s = map (\<lambda>imp. ''import '' @ imp @ '';'') s"

section \<open>The visitor's methods\<close>

text \<open>
  The own entries of the object literal \<^verbatim>\<open>SCALAR_TO_WRITER_METHOD\<close>; the visitor indexes
  it with \<open>js_index\<close>.
\<close>

definition SCALAR_TO_WRITER_METHOD :: "string \<Rightarrow> string option" where
  "SCALAR_TO_WRITER_METHOD =
     map_of [(''ID'', ''writeString''), (''String'', ''writeString''), (''Int'', ''writeInt''),
             (''Boolean'', ''writeBoolean''), (''Float'', ''writeDouble'')]"

text \<open>
  In \<open>getActualType\<close>, \<open>typeToUse\<close> is a string unless the scalar's name is one that
  \<^verbatim>\<open>config.scalars\<close> inherits; \<^verbatim>\<open>result.includes\<close> throws a \<^verbatim>\<open>TypeError\<close> when
  \<open>result\<close> is not a string (a function and the prototype object have no such method),
  so what the method returns is a string; the local \<open>result\<close> below is that string, or
  \<open>None\<close> when \<open>result\<close> is not a string. An inherited member that the import table
  yields is added to the set; the set holds it here as its printed text, which is what
  the getter \<^verbatim>\<open>imports\<close> prints for it.
\<close>

definition getActualType :: "JavaApolloAndroidVisitor \<Rightarrow> TypeNode \<Rightarrow> bool \<Rightarrow> string emit" where
  "getActualType v ty wrap =
     (let baseType = getBaseTypeNode ty in
      case schema v baseType of
        None \<Rightarrow> throw TypeError
      | Some schemaType \<Rightarrow>
          and_then
            (case schemaType of
               ScalarType n \<Rightarrow>
                 (let scalar = js_or (js_index (config_scalars v) n) ''Object'' in
                  and_then
                    (case js_index (Imports_at (Imports v)) (js_text (member_text v) scalar) of
                       JSString i \<Rightarrow> if i = [] then ret () else add i
                     | JSMember k \<Rightarrow> add (member_text v k)
                     | JSUndefined \<Rightarrow> ret ())
                    (\<lambda>_. ret scalar))
             | InputObjectType n \<Rightarrow>
                 and_then (add (config_package v @ ''.'' @ n)) (\<lambda>_. ret (JSString n))
             | _ \<Rightarrow> ret (JSString (type_name schemaType)))
            (\<lambda>typeToUse.
               let result =
                 (case typeToUse of
                    JSString t \<Rightarrow>
                      Some (if wrap then wrapTypeWithModifiers (lib v) t ty ''List'' else t)
                  | JSMember k \<Rightarrow>
                      if wrap then wrapTypeWithModifiers_member (lib v) k ty ''List'' else None
                  | JSUndefined \<Rightarrow> None) in
               case result of
                 Some r \<Rightarrow>
                   and_then
                     (if str_includes r ''List<'' then add (Imports_List (Imports v)) else ret ())
                     (\<lambda>_. ret r)
               | None \<Rightarrow> throw TypeError))"

definition getFieldWithTypePrefix ::
  "JavaApolloAndroidVisitor \<Rightarrow> InputValueDefinitionNode \<Rightarrow> bool \<Rightarrow> string emit" where
  "getFieldWithTypePrefix v field withInputWrapperWhenNeeded =
     and_then (add (Imports_Input (Imports v))) (\<lambda>_.
     and_then (getActualType v (field_type field) True) (\<lambda>typeToUse.
       let isNonNull = isNonNullType (field_type field) in
       and_then (if isNonNull then add (Imports_NonNull (Imports v)) else ret ()) (\<lambda>_.
         if isNonNull then ret (''@Nonnull '' @ typeToUse @ '' '' @ field_name field)
         else if withInputWrapperWhenNeeded
           then ret (''Input<'' @ typeToUse @ ''> '' @ field_name field)
           else ret (typeToUse @ '' '' @ field_name field))))"

definition buildInputPrivateFields ::
  "JavaApolloAndroidVisitor \<Rightarrow> InputValueDefinitionNode list \<Rightarrow> string list emit" where
  "buildInputPrivateFields v flds =
     and_then
       (mapM (\<lambda>field. and_then (getFieldWithTypePrefix v field True)
                (\<lambda>fieldType. ret (''private final '' @ fieldType @ '';''))) flds)
       (\<lambda>ss. ret (map (\<lambda>s. indent (lib v) s None) ss))"

definition buildInputCtor ::
  "JavaApolloAndroidVisitor \<Rightarrow> string \<Rightarrow> InputValueDefinitionNode list \<Rightarrow> string emit" where
  "buildInputCtor v className flds =
     and_then (mapM (\<lambda>field. getFieldWithTypePrefix v field True) flds) (\<lambda>mappedFields.
       ret (indentMultiline (lib v)
         (className @ ''('' @ join '', '' mappedFields @ '') {\<newline>''
          @ join ''\<newline>''
              (map (\<lambda>field. indent (lib v)
                      (''this.'' @ field_name field @ '' = '' @ field_name field @ '';'') None)
                 flds)
          @ ''\<newline>}'') None))"

text \<open>
  \<open>getFieldWriterCall\<close> only reads the schema. \<open>writerMethod\<close> stays \<^verbatim>\<open>null\<close> when the
  schema type is none of scalar, input object and enum (\<open>isScalarType\<close> and its
  siblings answer false on \<^verbatim>\<open>undefined\<close>).
\<close>

definition getFieldWriterCall ::
  "JavaApolloAndroidVisitor \<Rightarrow> InputValueDefinitionNode \<Rightarrow> bool \<Rightarrow> string" where
  \<open>getFieldWriterCall v field listItemCall =
     (let baseType = getBaseTypeNode (field_type field);
          schemaType = schema v baseType;
          isNonNull = isNonNullType (field_type field);
          writerCall = (\<lambda>writerMethod.
            if listItemCall then template_str (member_text v) writerMethod @ ''($item)''
            else template_str (member_text v) writerMethod @ ''("'' @ field_name field @ ''", ''
                 @ field_name field @ (if isNonNull then '''' else ''.value'') @ '')'')
      in case schemaType of
           Some (ScalarType n) \<Rightarrow>
             writerCall (Some (js_or (js_index SCALAR_TO_WRITER_METHOD n) ''writeCustom''))
         | Some (InputObjectType n) \<Rightarrow>
             if listItemCall then ''writeObject($item.marshaller())''
             else ''writeObject("'' @ field_name field @ ''", '' @ field_name field
                  @ ''.value != null ? '' @ field_name field @ ''.value.marshaller() : null)''
         | Some (EnumType n) \<Rightarrow> writerCall (Some (JSString ''writeString''))
         | _ \<Rightarrow> writerCall None)\<close>

text \<open>The local \<open>isArray\<close> of \<open>buildFieldsMarshaller\<close>.\<close>

fun isArray :: "TypeNode \<Rightarrow> bool" where
  "isArray (ListType t) = True"
| "isArray (NonNullType t) = isListType t"
| "isArray (NamedType n) = False"

text \<open>
  The local \<open>result\<close> of \<open>buildFieldsMarshaller\<close>, from the writer call and the list item
  type: the statement before any presence guard.
\<close>

definition marshallerStatement ::
  "JavaApolloAndroidVisitor \<Rightarrow> InputValueDefinitionNode \<Rightarrow> string \<Rightarrow> string \<Rightarrow> string" where
  \<open>marshallerStatement v field call listItemType =
     (if isArray (field_type field) then
        ''writer.writeList("'' @ field_name field @ ''", '' @ field_name field
        @ ''.value != null ? new InputFieldWriter.ListWriter() {\<newline>''
        @ ''  @Override\<newline>''
        @ ''  public void write(InputFieldWriter.ListItemWriter listItemWriter) throws IOException {\<newline>''
        @ ''    for ('' @ listItemType @ '' $item : '' @ field_name field @ ''.value) {\<newline>''
        @ ''      listItemWriter.'' @ call @ '';\<newline>''
        @ ''    }\<newline>''
        @ ''  }\<newline>''
        @ ''} : null);''
      else indent (lib v) (''writer.'' @ call @ '';'') None)\<close>

text \<open>The presence guard that \<open>buildFieldsMarshaller\<close> puts around an optional field.\<close>

definition presenceGuard ::
  "JavaApolloAndroidVisitor \<Rightarrow> InputValueDefinitionNode \<Rightarrow> string \<Rightarrow> string" where
  "presenceGuard v field result =
     indentMultiline (lib v)
       (''if('' @ field_name field @ ''.defined) {\<newline>''
        @ indentMultiline (lib v) result None
        @ ''\<newline>}'') None"

definition buildFieldsMarshaller ::
  "JavaApolloAndroidVisitor \<Rightarrow> InputValueDefinitionNode \<Rightarrow> string emit" where
  "buildFieldsMarshaller v field =
     (let isNonNull = isNonNullType (field_type field);
          call = getFieldWriterCall v field (isArray (field_type field)) in
      and_then (getActualType v (field_type field) False) (\<lambda>listItemType.
        let result = marshallerStatement v field call listItemType in
        if isNonNull then ret result else ret (presenceGuard v field result)))"

definition buildMarshallerOverride ::
  "JavaApolloAndroidVisitor \<Rightarrow> InputValueDefinitionNode list \<Rightarrow> string emit" where
  "buildMarshallerOverride v flds =
     and_then (add (Imports_Override (Imports v))) (\<lambda>_.
     and_then (add (Imports_IOException (Imports v))) (\<lambda>_.
     and_then (add (Imports_InputFieldWriter (Imports v))) (\<lambda>_.
     and_then (add (Imports_InputFieldMarshaller (Imports v))) (\<lambda>_.
     and_then
       (mapM (\<lambda>field. and_then (buildFieldsMarshaller v field)
                (\<lambda>m. ret (indentMultiline (lib v) m (Some 2)))) flds)
       (\<lambda>allMarshallers.
          ret (indentMultiline (lib v)
            (''@Override\<newline>''
             @ ''public InputFieldMarshaller marshaller() {\<newline>''
             @ ''  return new InputFieldMarshaller() {\<newline>''
             @ ''    @Override\<newline>''
             @ ''    public void marshal(InputFieldWriter writer) throws IOException {\<newline>''
             @ join ''\<newline>'' allMarshallers @ ''\<newline>''
             @ ''    }\<newline>''
             @ ''  };\<newline>''
             @ ''}'') None))))))"

text \<open>
  The locals of \<open>buildBuilderNestedClass\<close> that make the \<^verbatim>\<open>build()\<close> method: one
  null-check line per field, the list \<open>nonNullFields\<close> (each check also adds the
  \<^verbatim>\<open>Utils\<close> import), and the text \<open>buildFn\<close>.
\<close>

definition checkNotNull ::
  "JavaApolloAndroidVisitor \<Rightarrow> InputValueDefinitionNode \<Rightarrow> string" where
  \<open>checkNotNull v nnField =
     indent (lib v)
       (''Utils.checkNotNull('' @ field_name nnField @ '', "'' @ field_name nnField
        @ '' == null");'') (Some 1)\<close>

definition nonNullFields ::
  "JavaApolloAndroidVisitor \<Rightarrow> InputValueDefinitionNode list \<Rightarrow> string list emit" where
  "nonNullFields v flds =
     mapM (\<lambda>nnField. and_then (add (Imports_Utils (Imports v))) (\<lambda>_. ret (checkNotNull v nnField)))
       (filter (\<lambda>f. isNonNullType (field_type f)) flds)"

definition buildFn ::
  "JavaApolloAndroidVisitor \<Rightarrow> string \<Rightarrow> string list \<Rightarrow> InputValueDefinitionNode list \<Rightarrow> string" where
  "buildFn v className checks flds =
     indentMultiline (lib v)
       (''public '' @ className @ '' build() {\<newline>''
        @ join ''\<newline>'' checks @ ''\<newline>''
        @ ''  return new '' @ className @ ''('' @ join '', '' (map field_name flds) @ '');\<newline>''
        @ ''}'') None"

definition buildBuilderNestedClass ::
  "JavaApolloAndroidVisitor \<Rightarrow> string \<Rightarrow> InputValueDefinitionNode list \<Rightarrow> string emit" where
  "buildBuilderNestedClass v className flds =
     (let builderClassName = ''Builder'' in
      and_then
        (mapM (\<lambda>field. and_then (getFieldWithTypePrefix v field True) (\<lambda>fieldType.
                 let isNonNull = isNonNullType (field_type field) in
                 ret (''private '' @ fieldType
                      @ (if isNonNull then '''' else '' = Input.absent()'') @ '';''))) flds)
        (\<lambda>privateFields0.
      let privateFields = map (\<lambda>s. indent (lib v) s None) privateFields0 in
      and_then
        (mapM (\<lambda>field. and_then (getFieldWithTypePrefix v field False) (\<lambda>fieldType.
                 let isNonNull = isNonNullType (field_type field) in
                 ret (''\<newline>public '' @ builderClassName @ '' '' @ field_name field @ ''(''
                      @ (if isNonNull then '''' else ''@Nullable '') @ fieldType @ '') {\<newline>''
                      @ ''  this.'' @ field_name field @ '' = ''
                      @ (if isNonNull then field_name field
                         else ''Input.fromNullable('' @ field_name field @ '')'') @ '';\<newline>''
                      @ ''  return this;\<newline>''
                      @ ''}''))) flds)
        (\<lambda>setters0.
      let setters = map (\<lambda>s. indentMultiline (lib v) s None) setters0 in
      and_then (nonNullFields v flds) (\<lambda>checks.
      let ctor = ''\<newline>'' @ indent (lib v) (builderClassName @ ''() {}'') None;
          body = join ''\<newline>''
                   (privateFields @ [ctor] @ setters @ ['''', buildFn v className checks flds])
      in ret (indentMultiline (lib v)
           (block_string (lib v)
              \<lparr>block_annotations = [], block_access = ''public'', block_final = True,
               block_static = True, block_kind = ''class'', block_name = builderClassName,
               block_body = body, block_implements = []\<rparr>) None)))))"

definition buildInputGetters ::
  "JavaApolloAndroidVisitor \<Rightarrow> InputValueDefinitionNode list \<Rightarrow> string list emit" where
  "buildInputGetters v flds =
     and_then
       (mapM (\<lambda>field. and_then (getFieldWithTypePrefix v field True) (\<lambda>fieldType.
                let isNullable = \<not> isNonNullType (field_type field) in
                and_then (if isNullable then add (Imports_Nullable (Imports v)) else ret ()) (\<lambda>_.
                  ret (''public '' @ (if isNullable then ''@Nullable '' else '''') @ fieldType
                       @ ''() { return this.'' @ field_name field @ ''; }'')))) flds)
       (\<lambda>ss. ret (map (\<lambda>s. indent (lib v) s None) ss))"

definition InputObjectTypeDefinition ::
  "JavaApolloAndroidVisitor \<Rightarrow> InputObjectTypeDefinitionNode \<Rightarrow> string emit" where
  \<open>InputObjectTypeDefinition v node =
     (let className = node_name node in
      and_then (add (Imports_InputType (Imports v))) (\<lambda>_.
      and_then (add (Imports_Generated (Imports v))) (\<lambda>_.
      and_then (buildInputPrivateFields v (node_fields node)) (\<lambda>privateFields.
      and_then (buildInputCtor v className (node_fields node)) (\<lambda>ctor.
      and_then (buildInputGetters v (node_fields node)) (\<lambda>getters.
      let builderGetter =
            indent (lib v) ''public static Builder builder() { return new Builder(); }'' None in
      and_then (buildMarshallerOverride v (node_fields node)) (\<lambda>marshallerOverride.
      and_then (buildBuilderNestedClass v className (node_fields node)) (\<lambda>builderClass.
      let classBlock = join ''\<newline>''
            (privateFields @ ['''', ctor, ''''] @ getters
             @ ['''', builderGetter, '''', marshallerOverride, '''', builderClass])
      in ret (block_string (lib v)
           \<lparr>block_annotations = [''Generated("Apollo GraphQL")''], block_access = ''public'',
            block_final = True, block_static = False, block_kind = ''class'',
            block_name = className, block_body = classBlock,
            block_implements = [''InputType'']\<rparr>)))))))))\<close>

section \<open>A sample visitor\<close>

text \<open>
  An instance of the parameters, to run the methods on concrete fields: helpers that
  indent by two spaces per level and print a list type as \<open>List<T>\<close>, a small import
  table and a schema with scalars, an enum and an input object type.
\<close>

fun sample_wrap :: "string \<Rightarrow> TypeNode \<Rightarrow> string \<Rightarrow> string" where
  "sample_wrap baseType (NonNullType t) listType = sample_wrap baseType t listType"
| "sample_wrap baseType (ListType t) listType = listType @ ''<'' @ sample_wrap baseType t listType @ ''>''"
| "sample_wrap baseType (NamedType n) listType = baseType"

definition sample_indentation :: "nat option \<Rightarrow> string" where
  "sample_indentation count = concat (replicate (case count of None \<Rightarrow> 1 | Some n \<Rightarrow> n) ''  '')"

definition sample_indent :: "string \<Rightarrow> nat option \<Rightarrow> string" where
  "sample_indent str count = sample_indentation count @ str"

definition sample_indentMultiline :: "string \<Rightarrow> nat option \<Rightarrow> string" where
  "sample_indentMultiline str count =
     sample_indentation count
     @ concat (map (\<lambda>c. if c = CHR 0x0A then CHR 0x0A # sample_indentation count else [c]) str)"

definition sample_block_string :: "JavaDeclarationBlock \<Rightarrow> string" where
  "sample_block_string b =
     concat (map (\<lambda>a. ''@'' @ a @ ''\<newline>'') (block_annotations b))
     @ block_access b @ (if block_static b then '' static'' else '''')
     @ (if block_final b then '' final'' else '''') @ '' '' @ block_kind b @ '' '' @ block_name b
     @ (if block_implements b = [] then '''' else '' implements '' @ join '', '' (block_implements b))
     @ '' {\<newline>'' @ block_body b @ ''\<newline>}''"

text \<open>Node.js prints the inherited members so.\<close>

definition sample_member_text :: "string \<Rightarrow> string" where
  "sample_member_text k =
     (if k = ''__proto__'' then ''[object Object]''
      else if k = ''constructor'' then ''function Object() { [native code] }''
      else ''function '' @ k @ ''() { [native code] }'')"

definition sample_helpers :: helpers where
  "sample_helpers = \<lparr>indent = sample_indent, indentMultiline = sample_indentMultiline,
     wrapTypeWithModifiers = sample_wrap,
     wrapTypeWithModifiers_member = (\<lambda>k t listType.
       if isArray t then Some (sample_wrap (sample_member_text k) t listType) else None),
     block_string = sample_block_string\<rparr>"

definition sample_Imports :: ImportsTable where
  "sample_Imports = \<lparr>
     Imports_List = ''java.util.List'',
     Imports_Input = ''com.apollographql.apollo.api.Input'',
     Imports_NonNull = ''javax.annotation.Nonnull'',
     Imports_Override = ''java.lang.Override'',
     Imports_IOException = ''java.io.IOException'',
     Imports_InputFieldWriter = ''com.apollographql.apollo.api.InputFieldWriter'',
     Imports_InputFieldMarshaller = ''com.apollographql.apollo.api.InputFieldMarshaller'',
     Imports_Utils = ''com.apollographql.apollo.api.internal.Utils'',
     Imports_Nullable = ''javax.annotation.Nullable'',
     Imports_InputType = ''com.apollographql.apollo.api.InputType'',
     Imports_Generated = ''javax.annotation.Generated'',
     Imports_at = map_of [(''String'', ''java.lang.String''), (''Integer'', ''java.lang.Integer''),
                          (''Object'', ''java.lang.Object'')]\<rparr>"

definition sample_schema :: GraphQLSchema where
  "sample_schema = map_of
     [(''ID'', ScalarType ''ID''), (''String'', ScalarType ''String''), (''Int'', ScalarType ''Int''),
      (''Date'', ScalarType ''Date''), (''Color'', EnumType ''Color''),
      (''OtherInput'', InputObjectType ''OtherInput'')]"

definition sample_visitor :: JavaApolloAndroidVisitor where
  "sample_visitor = \<lparr>schema = sample_schema, config_package = ''app'',
     config_scalars = map_of [(''ID'', ''String''), (''String'', ''String''), (''Int'', ''Integer'')],
     Imports = sample_Imports, lib = sample_helpers, member_text = sample_member_text\<rparr>"


definition sample_fields :: "InputValueDefinitionNode list" where
  "sample_fields =
     [\<lparr>field_name = ''id'', field_type = NonNullType (NamedType ''ID'')\<rparr>,
      \<lparr>field_name = ''limit'', field_type = NamedType ''Int''\<rparr>]"

definition sample_node :: InputObjectTypeDefinitionNode where
  "sample_node = \<lparr>node_name = ''Filter'', node_fields =
     [\<lparr>field_name = ''id'', field_type = NonNullType (NamedType ''ID'')\<rparr>,
      \<lparr>field_name = ''a'', field_type = NamedType ''OtherInput''\<rparr>,
      \<lparr>field_name = ''b'', field_type = NonNullType (ListType (NamedType ''OtherInput''))\<rparr>]\<rparr>"

definition required_only_node :: InputObjectTypeDefinitionNode where
  "required_only_node = \<lparr>node_name = ''Key'', node_fields =
     [\<lparr>field_name = ''id'', field_type = NonNullType (NamedType ''ID'')\<rparr>]\<rparr>"

section \<open>Properties of a method's effect\<close>

text \<open>
  \<open>add_all\<close> adds a list of imports in order. A method \<open>adds_only\<close> when its result is
  the same from every import set and its effect is to add a fixed list of imports; it
  \<open>succeeds\<close> when it throws from no import set.
\<close>

definition add_all :: "string list \<Rightarrow> ImportSet \<Rightarrow> ImportSet" where
  "add_all G s = foldl (\<lambda>s x. set_add x s) s G"

definition adds_only :: "'a emit \<Rightarrow> bool" where
  "adds_only m = (\<exists>r G. \<forall>s. m s = (r, add_all G s))"

definition succeeds :: "'a emit \<Rightarrow> bool" where
  "succeeds m = (\<forall>s. \<exists>x. fst (m s) = Inr x)"

text \<open>
  A type reference is \<open>resolvable\<close> when its base type is in the schema and, if that is
  a scalar, \<^verbatim>\<open>config.scalars\<close> answers its name with a string: with an own entry, or
  with \<^verbatim>\<open>undefined\<close> and so the default.
\<close>

definition resolvable :: "JavaApolloAndroidVisitor \<Rightarrow> TypeNode \<Rightarrow> bool" where
  "resolvable v ty =
     (case schema v (getBaseTypeNode ty) of
        None \<Rightarrow> False
      | Some (ScalarType n) \<Rightarrow>
          (case js_or (js_index (config_scalars v) n) ''Object'' of
             JSString s \<Rightarrow> True | JSMember k \<Rightarrow> False | JSUndefined \<Rightarrow> False)
      | Some (InputObjectType n) \<Rightarrow> True
      | Some (EnumType n) \<Rightarrow> True
      | Some (OtherType n) \<Rightarrow> True)"

named_theorems adds_only_intros

named_theorems succeeds_intros

section \<open>Evaluation at concrete inputs\<close>

lemmas sample_defs = sample_visitor_def sample_schema_def sample_Imports_def sample_helpers_def
  sample_indent_def sample_indentMultiline_def sample_indentation_def sample_block_string_def
  sample_member_text_def

lemmas js_defs = js_index_def js_or_def js_text_def template_str_def or_else_def
  Object_prototype_members_def

lemmas emit_defs = and_then_def ret_def throw_def add_def set_add_def

lemma sample_node_resolves:
  "\<forall>f \<in> set (node_fields sample_node).
     resolvable sample_visitor (field_type f)"
  by (simp add: sample_node_def sample_visitor_def sample_schema_def resolvable_def js_defs)

lemma sample_fields_resolve:
  "\<forall>f \<in> set sample_fields. resolvable sample_visitor (field_type f)"
  by (simp add: sample_fields_def sample_visitor_def sample_schema_def resolvable_def js_defs)

section \<open>The import set only grows\<close>

lemma add_all_Nil: "add_all [] s = s" by (simp add: add_all_def)

lemma add_all_append: "add_all (G @ H) s = add_all H (add_all G s)" by (simp add: add_all_def)

lemma add_all_single: "add_all [x] s = set_add x s" by (simp add: add_all_def)

lemma set_add_all: "set (add_all G s) = set s \<union> set G"
  by (induction G arbitrary: s) (auto simp: add_all_def set_add_def)

lemma distinct_add_all: "distinct s \<Longrightarrow> distinct (add_all G s)"
  by (induction G arbitrary: s) (auto simp: add_all_def set_add_def)

lemma add_all_absorb: "set G \<subseteq> set s \<Longrightarrow> add_all G s = s"
  by (induction G arbitrary: s) (auto simp: add_all_def set_add_def)

lemma adds_only_ret [adds_only_intros]: "adds_only (ret x)"
  unfolding adds_only_def ret_def by (intro exI[of _ "Inr x"] exI[of _ "[]"]) (simp add: add_all_Nil)

lemma adds_only_throw [adds_only_intros]: "adds_only (throw e)"
  unfolding adds_only_def throw_def by (intro exI[of _ "Inl e"] exI[of _ "[]"]) (simp add: add_all_Nil)

lemma adds_only_add [adds_only_intros]: "adds_only (add x)"
  unfolding adds_only_def add_def by (intro exI[of _ "Inr ()"] exI[of _ "[x]"]) (simp add: add_all_single)

lemma adds_only_and_then [adds_only_intros]:
  assumes m: "adds_only m" and f: "\<And>x. adds_only (f x)"
  shows "adds_only (and_then m f)"
proof -
  from m obtain r G where mG: "\<And>s. m s = (r, add_all G s)"
    unfolding adds_only_def by blast
  show ?thesis
  proof (cases r)
    case (Inl e)
    have "\<forall>s. and_then m f s = (Inl e, add_all G s)"
      by (simp add: and_then_def mG Inl)
    then show ?thesis unfolding adds_only_def by blast
  next
    case (Inr x)
    from f [of x] obtain r' G' where fG: "\<And>s. f x s = (r', add_all G' s)"
      unfolding adds_only_def by blast
    have "\<forall>s. and_then m f s = (r', add_all (G @ G') s)"
      by (simp add: and_then_def mG Inr fG add_all_append)
    then show ?thesis unfolding adds_only_def by blast
  qed
qed

lemma adds_only_mapM [adds_only_intros]:
  assumes "\<And>x. adds_only (f x)"
  shows "adds_only (mapM f xs)"
  by (induction xs) (auto intro!: adds_only_intros assms)

lemma adds_only_getActualType [adds_only_intros]: "adds_only (getActualType v ty wrap)"
  unfolding getActualType_def Let_def
  by (auto intro!: adds_only_intros split: option.split GraphQLNamedType.split js_value.split)

lemma adds_only_getFieldWithTypePrefix [adds_only_intros]:
  "adds_only (getFieldWithTypePrefix v field w)"
  unfolding getFieldWithTypePrefix_def Let_def
  by (auto intro!: adds_only_intros)

lemma adds_only_buildInputPrivateFields [adds_only_intros]:
  "adds_only (buildInputPrivateFields v flds)"
  unfolding buildInputPrivateFields_def by (auto intro!: adds_only_intros)

lemma adds_only_buildInputCtor [adds_only_intros]:
  "adds_only (buildInputCtor v c flds)"
  unfolding buildInputCtor_def by (auto intro!: adds_only_intros)

lemma adds_only_buildFieldsMarshaller [adds_only_intros]:
  "adds_only (buildFieldsMarshaller v field)"
  unfolding buildFieldsMarshaller_def Let_def by (auto intro!: adds_only_intros)

lemma adds_only_buildMarshallerOverride [adds_only_intros]:
  "adds_only (buildMarshallerOverride v flds)"
  unfolding buildMarshallerOverride_def by (auto intro!: adds_only_intros)

lemma adds_only_nonNullFields [adds_only_intros]: "adds_only (nonNullFields v flds)"
  unfolding nonNullFields_def by (auto intro!: adds_only_intros)

lemma adds_only_buildBuilderNestedClass [adds_only_intros]:
  "adds_only (buildBuilderNestedClass v c flds)"
  unfolding buildBuilderNestedClass_def Let_def by (auto intro!: adds_only_intros)

lemma adds_only_buildInputGetters [adds_only_intros]: "adds_only (buildInputGetters v flds)"
  unfolding buildInputGetters_def Let_def by (auto intro!: adds_only_intros)

lemma adds_only_InputObjectTypeDefinition [adds_only_intros]:
  "adds_only (InputObjectTypeDefinition v node)"
  unfolding InputObjectTypeDefinition_def Let_def by (auto intro!: adds_only_intros)

lemma adds_only_fst: "adds_only m \<Longrightarrow> fst (m s1) = fst (m s2)"
  by (auto simp: adds_only_def)

lemma adds_only_set: "adds_only m \<Longrightarrow> set (snd (m s)) = set s \<union> set (snd (m []))"
  by (auto simp: adds_only_def set_add_all)

lemma adds_only_mono: "adds_only m \<Longrightarrow> set s \<subseteq> set (snd (m s))"
  by (auto simp: adds_only_def set_add_all)

lemma adds_only_distinct: "adds_only m \<Longrightarrow> distinct s \<Longrightarrow> distinct (snd (m s))"
  by (auto simp: adds_only_def distinct_add_all)

lemma adds_only_idem: "adds_only m \<Longrightarrow> snd (m (snd (m s))) = snd (m s)"
  by (auto simp: adds_only_def set_add_all intro!: add_all_absorb)

lemma and_then_InrE:
  assumes "and_then m f s = (Inr r, s')"
  obtains x s1 where "m s = (Inr x, s1)" and "f x s1 = (Inr r, s')"
  using assms by (auto simp: and_then_def split: prod.splits sum.splits)

lemma in_and_then_first:
  assumes "X \<in> set (snd (m s))" and "\<And>x. adds_only (f x)"
  shows "X \<in> set (snd (and_then m f s))"
proof (cases "m s")
  case (Pair r s1)
  show ?thesis
  proof (cases r)
    case (Inl e)
    with Pair assms(1) show ?thesis by (simp add: and_then_def)
  next
    case (Inr x)
    from assms(1) Pair have "X \<in> set s1" by simp
    with adds_only_mono [OF assms(2), of s1 x] have "X \<in> set (snd (f x s1))" by blast
    with Pair Inr show ?thesis by (simp add: and_then_def)
  qed
qed

lemma in_and_then_add:
  assumes "X \<in> set (snd (f () (set_add a s)))"
  shows "X \<in> set (snd (and_then (add a) f s))"
  using assms by (simp add: and_then_def add_def)

section \<open>Generation succeeds when every field's type is resolvable\<close>

lemma succeedsD: "succeeds m \<Longrightarrow> \<exists>x. fst (m s) = Inr x"
  by (simp add: succeeds_def)

lemma succeeds_ret [succeeds_intros]: "succeeds (ret x)"
  by (simp add: succeeds_def ret_def)

lemma succeeds_add [succeeds_intros]: "succeeds (add x)"
  by (simp add: succeeds_def add_def)

lemma succeeds_and_then [succeeds_intros]:
  assumes "succeeds m" and "\<And>x. succeeds (f x)"
  shows "succeeds (and_then m f)"
  unfolding succeeds_def
proof
  fix s
  from assms(1) obtain x where x: "fst (m s) = Inr x" by (auto simp: succeeds_def)
  from assms(2) [of x] obtain y where "fst (f x (snd (m s))) = Inr y" by (auto simp: succeeds_def)
  with x show "\<exists>y. fst (and_then m f s) = Inr y"
    by (cases "m s") (simp add: and_then_def)
qed

lemma succeeds_mapM [succeeds_intros]:
  assumes "\<And>x. x \<in> set xs \<Longrightarrow> succeeds (f x)"
  shows "succeeds (mapM f xs)"
  using assms by (induction xs) (auto intro!: succeeds_intros)

lemma succeeds_getActualType [succeeds_intros]:
  assumes "resolvable v ty"
  shows "succeeds (getActualType v ty wrap)"
  unfolding succeeds_def
proof
  fix s
  show "\<exists>x. fst (getActualType v ty wrap s) = Inr x"
    using assms
    by (auto simp: getActualType_def resolvable_def Let_def emit_defs
        split: option.splits GraphQLNamedType.splits js_value.splits)
qed

lemma succeeds_getFieldWithTypePrefix [succeeds_intros]:
  assumes "resolvable v (field_type field)"
  shows "succeeds (getFieldWithTypePrefix v field w)"
  using assms unfolding getFieldWithTypePrefix_def Let_def
  by (auto intro!: succeeds_intros)

lemma succeeds_buildInputPrivateFields [succeeds_intros]:
  assumes "\<forall>f \<in> set flds. resolvable v (field_type f)"
  shows "succeeds (buildInputPrivateFields v flds)"
  using assms unfolding buildInputPrivateFields_def by (auto intro!: succeeds_intros)

lemma succeeds_buildInputCtor [succeeds_intros]:
  assumes "\<forall>f \<in> set flds. resolvable v (field_type f)"
  shows "succeeds (buildInputCtor v c flds)"
  using assms unfolding buildInputCtor_def by (auto intro!: succeeds_intros)

lemma succeeds_buildFieldsMarshaller [succeeds_intros]:
  assumes "resolvable v (field_type field)"
  shows "succeeds (buildFieldsMarshaller v field)"
  using assms unfolding buildFieldsMarshaller_def Let_def by (auto intro!: succeeds_intros)

lemma succeeds_buildMarshallerOverride [succeeds_intros]:
  assumes "\<forall>f \<in> set flds. resolvable v (field_type f)"
  shows "succeeds (buildMarshallerOverride v flds)"
  using assms unfolding buildMarshallerOverride_def by (auto intro!: succeeds_intros)

lemma succeeds_nonNullFields [succeeds_intros]: "succeeds (nonNullFields v flds)"
  unfolding nonNullFields_def by (auto intro!: succeeds_intros)

lemma succeeds_buildBuilderNestedClass [succeeds_intros]:
  assumes "\<forall>f \<in> set flds. resolvable v (field_type f)"
  shows "succeeds (buildBuilderNestedClass v c flds)"
  using assms unfolding buildBuilderNestedClass_def Let_def by (auto intro!: succeeds_intros)

lemma succeeds_buildInputGetters [succeeds_intros]:
  assumes "\<forall>f \<in> set flds. resolvable v (field_type f)"
  shows "succeeds (buildInputGetters v flds)"
  using assms unfolding buildInputGetters_def Let_def by (auto intro!: succeeds_intros)

lemma succeeds_InputObjectTypeDefinition:
  assumes "\<forall>f \<in> set (node_fields node). resolvable v (field_type f)"
  shows "succeeds (InputObjectTypeDefinition v node)"
  using assms unfolding InputObjectTypeDefinition_def Let_def by (auto intro!: succeeds_intros)

section \<open>The marshaller\<close>

lemma fst_getActualType_InputObject_nowrap:
  "schema v (getBaseTypeNode ty) = Some (InputObjectType n) \<Longrightarrow>
   fst (getActualType v ty False s) = Inr n"
  by (simp add: getActualType_def Let_def emit_defs)

lemma js_or_index:
  "key \<notin> set Object_prototype_members \<Longrightarrow>
   js_or (js_index own key) d = JSString (or_else (own key) d)"
  by (simp add: js_or_def js_index_def or_else_def split: option.split)

lemma fst_getActualType_Scalar_nowrap:
  "schema v (getBaseTypeNode ty) = Some (ScalarType n) \<Longrightarrow>
   n \<notin> set Object_prototype_members \<Longrightarrow>
   fst (getActualType v ty False s) = Inr (or_else (config_scalars v n) ''Object'')"
  by (simp add: getActualType_def Let_def emit_defs js_or_index split: js_value.split)



lemma fst_buildFieldsMarshaller:
  "fst (getActualType v (field_type field) False s) = Inr listItemType \<Longrightarrow>
   fst (buildFieldsMarshaller v field s) =
     Inr (let result = marshallerStatement v field
                     (getFieldWriterCall v field (isArray (field_type field))) listItemType
          in if isNonNullType (field_type field) then result else presenceGuard v field result)"
  by (cases "getActualType v (field_type field) False s")
     (simp add: buildFieldsMarshaller_def Let_def and_then_def ret_def)

text \<open>
  Claim C1. The claim: a required (non-null) field of input object type that is not a
  list is written as \<^verbatim>\<open>ref.marshaller()\<close>, with no null test. The code does not do
  that: the input-object branch of \<open>getFieldWriterCall\<close> returns the ternary on
  \<^verbatim>\<open>ref.value\<close> whether or not the field is non-null, while the scalar and enum branch
  of the same function does drop \<^verbatim>\<open>.value\<close> for a non-null field. The theorem runs
  the code on the field \<^verbatim>\<open>ref: OtherInput!\<close>.
\<close>

theorem C1_required_object_field_reads_value:
  \<open>getFieldWriterCall sample_visitor
      \<lparr>field_name = ''ref'', field_type = NonNullType (NamedType ''OtherInput'')\<rparr> False
    = ''writeObject("ref", ref.value != null ? ref.value.marshaller() : null)''
   \<and> buildFieldsMarshaller sample_visitor
      \<lparr>field_name = ''ref'', field_type = NonNullType (NamedType ''OtherInput'')\<rparr> []
    = (Inr ''  writer.writeObject("ref", ref.value != null ? ref.value.marshaller() : null);'',
       [''app.OtherInput''])\<close>
  by (simp add: buildFieldsMarshaller_def marshallerStatement_def getFieldWriterCall_def
      getActualType_def Let_def emit_defs sample_defs js_defs)

text \<open>
  Claim C2. The claim: the statement of a required field reads the raw field, and that
  of an optional field reads \<^verbatim>\<open>.value\<close>; a required list is written from the raw field.
  The code does not do that for lists: the list branch of \<open>buildFieldsMarshaller\<close>
  tests and iterates \<^verbatim>\<open>tags.value\<close> whether or not the field is non-null. The theorem
  runs the code on the field \<^verbatim>\<open>tags: [String]!\<close>.
\<close>

theorem C2_required_list_field_reads_value:
  \<open>buildFieldsMarshaller sample_visitor
      \<lparr>field_name = ''tags'', field_type = NonNullType (ListType (NamedType ''String''))\<rparr> []
    = (Inr (''writer.writeList("tags", tags.value != null ? new InputFieldWriter.ListWriter() {\<newline>''
          @ ''  @Override\<newline>''
          @ ''  public void write(InputFieldWriter.ListItemWriter listItemWriter) throws IOException {\<newline>''
          @ ''    for (String $item : tags.value) {\<newline>''
          @ ''      listItemWriter.writeString($item);\<newline>''
          @ ''    }\<newline>''
          @ ''  }\<newline>''
          @ ''} : null);''),
       [''java.lang.String''])\<close>
  by (simp add: buildFieldsMarshaller_def marshallerStatement_def getFieldWriterCall_def
      getActualType_def Let_def emit_defs sample_defs js_defs
      SCALAR_TO_WRITER_METHOD_def)

text \<open>
  Claim C3. For every field of an input object type whose list item type resolves, the
  statement that \<open>buildFieldsMarshaller\<close> emits is the plain statement (the local
  \<open>result\<close>) when the field's type is non-null, and that same statement wrapped in
  \<^verbatim>\<open>if(<name>.defined) { ... }\<close> when it is not: the presence guard is there exactly for
  the optional fields.
\<close>

theorem C3_presence_guard_iff_optional:
  assumes "getActualType v (field_type field) False s = (Inr listItemType, s')"
  shows "buildFieldsMarshaller v field s =
     (let result = marshallerStatement v field
                     (getFieldWriterCall v field (isArray (field_type field))) listItemType
      in (Inr (if isNonNullType (field_type field) then result
               else indentMultiline (lib v)
                      (''if('' @ field_name field @ ''.defined) {\<newline>''
                       @ indentMultiline (lib v) result None @ ''\<newline>}'') None), s'))"
  using assms
  by (simp add: buildFieldsMarshaller_def Let_def and_then_def ret_def presenceGuard_def)

theorem C3_presence_guard_iff_optional_witness:
  \<open>buildFieldsMarshaller sample_visitor
      \<lparr>field_name = ''limit'', field_type = NamedType ''Int''\<rparr> []
    = (Inr ''  if(limit.defined) {\<newline>      writer.writeInt("limit", limit.value);\<newline>  }'',
       [''java.lang.Integer''])
   \<and> buildFieldsMarshaller sample_visitor
      \<lparr>field_name = ''name'', field_type = NonNullType (NamedType ''String'')\<rparr> []
    = (Inr ''  writer.writeString("name", name);'', [''java.lang.String''])\<close>
proof -
  have opt: "getActualType sample_visitor
       (field_type \<lparr>field_name = ''limit'', field_type = NamedType ''Int''\<rparr>) False []
     = (Inr ''Integer'', [''java.lang.Integer''])"
    by (simp add: getActualType_def sample_defs emit_defs js_defs Let_def)
  have req: "getActualType sample_visitor
       (field_type \<lparr>field_name = ''name'', field_type = NonNullType (NamedType ''String'')\<rparr>) False []
     = (Inr ''String'', [''java.lang.String''])"
    by (simp add: getActualType_def sample_defs emit_defs js_defs Let_def)
  show ?thesis
    using C3_presence_guard_iff_optional [OF opt] C3_presence_guard_iff_optional [OF req]
    by (simp add: marshallerStatement_def getFieldWriterCall_def SCALAR_TO_WRITER_METHOD_def
        js_defs sample_defs)
qed

text \<open>
  Claim C4. For every list field (a list type, or a non-null list type) whose base type
  is an input object type, whatever the nullability of the list's items, the per-item
  writer call is \<^verbatim>\<open>writeObject($item.marshaller())\<close>, and the loop body of the emitted
  list writer is that call alone: nothing tests the item for null.
\<close>

theorem C4_object_list_items_marshalled_unchecked:
  assumes "isArray (field_type field)"
    and "schema v (getBaseTypeNode (field_type field)) = Some (InputObjectType n)"
  shows \<open>getFieldWriterCall v field (isArray (field_type field)) = ''writeObject($item.marshaller())''
    \<and> fst (buildFieldsMarshaller v field s) =
       (let result =
          ''writer.writeList("'' @ field_name field @ ''", '' @ field_name field
          @ ''.value != null ? new InputFieldWriter.ListWriter() {\<newline>''
          @ ''  @Override\<newline>''
          @ ''  public void write(InputFieldWriter.ListItemWriter listItemWriter) throws IOException {\<newline>''
          @ ''    for ('' @ n @ '' $item : '' @ field_name field @ ''.value) {\<newline>''
          @ ''      listItemWriter.writeObject($item.marshaller());\<newline>''
          @ ''    }\<newline>''
          @ ''  }\<newline>''
          @ ''} : null);''
        in Inr (if isNonNullType (field_type field) then result
                else indentMultiline (lib v)
                       (''if('' @ field_name field @ ''.defined) {\<newline>''
                        @ indentMultiline (lib v) result None @ ''\<newline>}'') None))\<close>
proof -
  have call: "getFieldWriterCall v field (isArray (field_type field)) = ''writeObject($item.marshaller())''"
    using assms by (simp add: getFieldWriterCall_def Let_def)
  have ty: "fst (getActualType v (field_type field) False s) = Inr n"
    using assms(2) by (rule fst_getActualType_InputObject_nowrap)
  show ?thesis
    using assms(1) call fst_buildFieldsMarshaller [OF ty]
    by (simp add: Let_def marshallerStatement_def presenceGuard_def)
qed

theorem C4_object_list_items_marshalled_unchecked_witness:
  \<open>isArray (field_type \<lparr>field_name = ''refs'', field_type = NonNullType (ListType (NamedType ''OtherInput''))\<rparr>)
   \<and> schema sample_visitor (getBaseTypeNode (field_type
         \<lparr>field_name = ''refs'', field_type = NonNullType (ListType (NamedType ''OtherInput''))\<rparr>))
       = Some (InputObjectType ''OtherInput'')
   \<and> getFieldWriterCall sample_visitor
         \<lparr>field_name = ''refs'', field_type = NonNullType (ListType (NamedType ''OtherInput''))\<rparr> True
       = ''writeObject($item.marshaller())''
   \<and> fst (buildFieldsMarshaller sample_visitor
         \<lparr>field_name = ''refs'', field_type = NonNullType (ListType (NamedType ''OtherInput''))\<rparr> [])
       = Inr (''writer.writeList("refs", refs.value != null ? new InputFieldWriter.ListWriter() {\<newline>''
          @ ''  @Override\<newline>''
          @ ''  public void write(InputFieldWriter.ListItemWriter listItemWriter) throws IOException {\<newline>''
          @ ''    for (OtherInput $item : refs.value) {\<newline>''
          @ ''      listItemWriter.writeObject($item.marshaller());\<newline>''
          @ ''    }\<newline>''
          @ ''  }\<newline>''
          @ ''} : null);'')\<close>
proof -
  have a: "isArray (field_type \<lparr>field_name = ''refs'', field_type = NonNullType (ListType (NamedType ''OtherInput''))\<rparr>)"
    by simp
  have b: "schema sample_visitor (getBaseTypeNode (field_type
         \<lparr>field_name = ''refs'', field_type = NonNullType (ListType (NamedType ''OtherInput''))\<rparr>))
       = Some (InputObjectType ''OtherInput'')"
    by (simp add: sample_visitor_def sample_schema_def)
  show ?thesis
    using a b C4_object_list_items_marshalled_unchecked [OF a b, of "[]"]
    by (simp add: Let_def)
qed

text \<open>
  Claim C5. For an optional list field whose base type is the scalar \<^verbatim>\<open>String\<close> (such
  as \<^verbatim>\<open>tags: [String]\<close>), the per-item writer call is \<^verbatim>\<open>writeString($item)\<close>, which is
  not the two-argument call with the field's name, and the emitted statement is the
  list-writer block inside the presence guard.
\<close>

theorem C5_optional_string_list:
  assumes "field_type field = ListType t"
    and "schema v (getBaseTypeNode t) = Some (ScalarType ''String'')"
  shows \<open>getFieldWriterCall v field (isArray (field_type field)) = ''writeString($item)''
    \<and> getFieldWriterCall v field (isArray (field_type field))
        \<noteq> ''writeString("'' @ field_name field @ ''", '' @ field_name field @ ''.value)''
    \<and> fst (buildFieldsMarshaller v field s) =
        Inr (indentMultiline (lib v)
          (''if('' @ field_name field @ ''.defined) {\<newline>''
           @ indentMultiline (lib v)
              (''writer.writeList("'' @ field_name field @ ''", '' @ field_name field
               @ ''.value != null ? new InputFieldWriter.ListWriter() {\<newline>''
               @ ''  @Override\<newline>''
               @ ''  public void write(InputFieldWriter.ListItemWriter listItemWriter) throws IOException {\<newline>''
               @ ''    for ('' @ or_else (config_scalars v ''String'') ''Object'' @ '' $item : ''
               @ field_name field @ ''.value) {\<newline>''
               @ ''      listItemWriter.writeString($item);\<newline>''
               @ ''    }\<newline>''
               @ ''  }\<newline>''
               @ ''} : null);'') None
           @ ''\<newline>}'') None)\<close>
proof -
  have call: "getFieldWriterCall v field (isArray (field_type field)) = ''writeString($item)''"
    using assms
    by (simp add: getFieldWriterCall_def Let_def SCALAR_TO_WRITER_METHOD_def js_defs)
  have "''String'' \<notin> set Object_prototype_members"
    by (simp add: Object_prototype_members_def)
  then have ty: "fst (getActualType v (field_type field) False s)
            = Inr (or_else (config_scalars v ''String'') ''Object'')"
    using assms by (simp add: fst_getActualType_Scalar_nowrap)
  show ?thesis
    using assms(1) call fst_buildFieldsMarshaller [OF ty]
    by (simp add: Let_def marshallerStatement_def presenceGuard_def)
qed

theorem C5_optional_string_list_witness:
  \<open>field_type \<lparr>field_name = ''tags'', field_type = ListType (NamedType ''String'')\<rparr>
     = ListType (NamedType ''String'')
   \<and> schema sample_visitor (getBaseTypeNode (NamedType ''String'')) = Some (ScalarType ''String'')
   \<and> getFieldWriterCall sample_visitor
         \<lparr>field_name = ''tags'', field_type = ListType (NamedType ''String'')\<rparr> True
       = ''writeString($item)''
   \<and> fst (buildFieldsMarshaller sample_visitor
         \<lparr>field_name = ''tags'', field_type = ListType (NamedType ''String'')\<rparr> [])
       = Inr (''  if(tags.defined) {\<newline>''
          @ ''    writer.writeList("tags", tags.value != null ? new InputFieldWriter.ListWriter() {\<newline>''
          @ ''      @Override\<newline>''
          @ ''      public void write(InputFieldWriter.ListItemWriter listItemWriter) throws IOException {\<newline>''
          @ ''        for (String $item : tags.value) {\<newline>''
          @ ''          listItemWriter.writeString($item);\<newline>''
          @ ''        }\<newline>''
          @ ''      }\<newline>''
          @ ''    } : null);\<newline>''
          @ ''  }'')\<close>
proof -
  have a: "field_type \<lparr>field_name = ''tags'', field_type = ListType (NamedType ''String'')\<rparr>
     = ListType (NamedType ''String'')"
    by simp
  have b: "schema sample_visitor (getBaseTypeNode (NamedType ''String'')) = Some (ScalarType ''String'')"
    by (simp add: sample_visitor_def sample_schema_def)
  show ?thesis
    using a b C5_optional_string_list [OF a b, of "[]"]
    by (simp add: or_else_def sample_defs)
qed




section \<open>The builder\<close>

lemma fst_mapM_total:
  assumes "\<And>x s. fst (f x s) = Inr (g x)"
  shows "fst (mapM f xs s) = Inr (map g xs)"
proof (induction xs arbitrary: s)
  case Nil
  show ?case by (simp add: ret_def)
next
  case (Cons x xs)
  obtain r s1 where fx: "f x s = (r, s1)" by (cases "f x s")
  with assms [of x s] have r: "r = Inr (g x)" by simp
  obtain r' s2 where rest: "mapM f xs s1 = (r', s2)" by (cases "mapM f xs s1")
  with Cons.IH [of s1] have "r' = Inr (map g xs)" by simp
  with fx r rest show ?case by (simp add: and_then_def ret_def)
qed

lemma fst_nonNullFields:
  "fst (nonNullFields v flds s)
     = Inr (map (checkNotNull v) (filter (\<lambda>f. isNonNullType (field_type f)) flds))"
  unfolding nonNullFields_def by (rule fst_mapM_total) (simp add: and_then_def add_def ret_def)

text \<open>
  Claim C8. When the builder class is generated, the last member of its body is the
  \<^verbatim>\<open>build()\<close> method, whose text is: one line
  \<^verbatim>\<open>Utils.checkNotNull(<name>, "<name> == null");\<close> for each non-null field and for no
  other field, in declaration order; then the line that returns
  \<^verbatim>\<open>new <Class>(...)\<close> with the names of all the fields, in declaration order.
\<close>

theorem C8_build_checks_required_fields:
  assumes "fst (buildBuilderNestedClass v className flds s) = Inr builderClass"
  shows \<open>\<exists>members. builderClass =
     indentMultiline (lib v)
       (block_string (lib v)
          \<lparr>block_annotations = [], block_access = ''public'', block_final = True,
           block_static = True, block_kind = ''class'', block_name = ''Builder'',
           block_body = join ''\<newline>''
             (members @
              ['''',
               indentMultiline (lib v)
                 (''public '' @ className @ '' build() {\<newline>''
                  @ join ''\<newline>''
                      (map (\<lambda>f. indent (lib v)
                              (''Utils.checkNotNull('' @ field_name f @ '', "'' @ field_name f
                               @ '' == null");'') (Some 1))
                         (filter (\<lambda>f. isNonNullType (field_type f)) flds))
                  @ ''\<newline>''
                  @ ''  return new '' @ className @ ''('' @ join '', '' (map field_name flds)
                  @ '');\<newline>''
                  @ ''}'') None]),
           block_implements = []\<rparr>) None\<close>
proof -
  from assms obtain s' where
    "buildBuilderNestedClass v className flds s = (Inr builderClass, s')"
    by (cases "buildBuilderNestedClass v className flds s") simp
  then obtain pf0 st0 checks s2 s3 where
    checks: "nonNullFields v flds s2 = (Inr checks, s3)" and
    shape: "builderClass = indentMultiline (lib v)
       (block_string (lib v)
          \<lparr>block_annotations = [], block_access = ''public'', block_final = True,
           block_static = True, block_kind = ''class'', block_name = ''Builder'',
           block_body = join ''\<newline>''
             (map (\<lambda>s. indent (lib v) s None) pf0
              @ [''\<newline>'' @ indent (lib v) (''Builder'' @ ''() {}'') None]
              @ map (\<lambda>s. indentMultiline (lib v) s None) st0
              @ ['''', buildFn v className checks flds]),
           block_implements = []\<rparr>) None"
    unfolding buildBuilderNestedClass_def Let_def
    by (elim and_then_InrE) (auto simp: ret_def)
  from checks fst_nonNullFields [of v flds s2]
  have "checks = map (checkNotNull v) (filter (\<lambda>f. isNonNullType (field_type f)) flds)"
    by simp
  with shape show ?thesis
    unfolding buildFn_def checkNotNull_def
    by (intro exI [of _ "map (\<lambda>s. indent (lib v) s None) pf0
              @ [''\<newline>'' @ indent (lib v) (''Builder'' @ ''() {}'') None]
              @ map (\<lambda>s. indentMultiline (lib v) s None) st0"]) simp
qed

theorem C8_build_checks_required_fields_witness:
  \<open>\<exists>members. fst (buildBuilderNestedClass sample_visitor ''Filter'' sample_fields []) =
     Inr (sample_indentMultiline
       (sample_block_string
          \<lparr>block_annotations = [], block_access = ''public'', block_final = True,
           block_static = True, block_kind = ''class'', block_name = ''Builder'',
           block_body = join ''\<newline>''
             (members @
              ['''',
               ''  public Filter build() {\<newline>''
               @ ''    Utils.checkNotNull(id, "id == null");\<newline>''
               @ ''    return new Filter(id, limit);\<newline>''
               @ ''  }'']),
           block_implements = []\<rparr>) None)\<close>
proof -
  obtain builderClass where
    ok: "fst (buildBuilderNestedClass sample_visitor ''Filter'' sample_fields []) = Inr builderClass"
    using succeedsD [OF succeeds_buildBuilderNestedClass [OF sample_fields_resolve]] by blast
  have build: \<open>sample_indentMultiline
                 (''public '' @ ''Filter'' @ '' build() {\<newline>''
                  @ join ''\<newline>''
                      (map (\<lambda>f. sample_indent
                              (''Utils.checkNotNull('' @ field_name f @ '', "'' @ field_name f
                               @ '' == null");'') (Some 1))
                         (filter (\<lambda>f. isNonNullType (field_type f)) sample_fields))
                  @ ''\<newline>''
                  @ ''  return new '' @ ''Filter'' @ ''('' @ join '', '' (map field_name sample_fields)
                  @ '');\<newline>''
                  @ ''}'') None
        = ''  public Filter build() {\<newline>''
               @ ''    Utils.checkNotNull(id, "id == null");\<newline>''
               @ ''    return new Filter(id, limit);\<newline>''
               @ ''  }''\<close>
    by (simp add: sample_fields_def sample_defs)
  have lib: "indentMultiline (lib sample_visitor) = sample_indentMultiline"
    "indent (lib sample_visitor) = sample_indent"
    "block_string (lib sample_visitor) = sample_block_string"
    by (simp_all add: sample_visitor_def sample_helpers_def)
  from C8_build_checks_required_fields [OF ok] obtain members where
    \<open>builderClass =
     indentMultiline (lib sample_visitor)
       (block_string (lib sample_visitor)
          \<lparr>block_annotations = [], block_access = ''public'', block_final = True,
           block_static = True, block_kind = ''class'', block_name = ''Builder'',
           block_body = join ''\<newline>''
             (members @
              ['''',
               indentMultiline (lib sample_visitor)
                 (''public '' @ ''Filter'' @ '' build() {\<newline>''
                  @ join ''\<newline>''
                      (map (\<lambda>f. indent (lib sample_visitor)
                              (''Utils.checkNotNull('' @ field_name f @ '', "'' @ field_name f
                               @ '' == null");'') (Some 1))
                         (filter (\<lambda>f. isNonNullType (field_type f)) sample_fields))
                  @ ''\<newline>''
                  @ ''  return new '' @ ''Filter'' @ ''('' @ join '', '' (map field_name sample_fields)
                  @ '');\<newline>''
                  @ ''}'') None]),
           block_implements = []\<rparr>) None\<close>
    by blast
  then have \<open>builderClass =
     sample_indentMultiline
       (sample_block_string
          \<lparr>block_annotations = [], block_access = ''public'', block_final = True,
           block_static = True, block_kind = ''class'', block_name = ''Builder'',
           block_body = join ''\<newline>''
             (members @
              ['''',
               ''  public Filter build() {\<newline>''
               @ ''    Utils.checkNotNull(id, "id == null");\<newline>''
               @ ''    return new Filter(id, limit);\<newline>''
               @ ''  }'']),
           block_implements = []\<rparr>) None\<close>
    by (simp only: lib build)
  with ok show ?thesis by blast
qed

section \<open>The import list\<close>

lemma count_list_distinct: "distinct xs \<Longrightarrow> x \<in> set xs \<Longrightarrow> count_list xs x = 1"
  by (induction xs) auto

lemma inj_import_line: "inj (\<lambda>imp. ''import '' @ imp @ '';'')"
  by (rule injI) simp

lemma distinct_imports_of: "distinct s \<Longrightarrow> distinct (imports_of s)"
  by (simp add: imports_of_def distinct_map inj_on_def)

lemma count_imports_of:
  "distinct s \<Longrightarrow> x \<in> set s \<Longrightarrow> count_list (imports_of s) (''import '' @ x @ '';'') = 1"
  using count_list_map_conv [OF inj_import_line, of s x]
  by (simp add: imports_of_def count_list_distinct)

lemma in_imports_of: "x \<in> set s \<Longrightarrow> ''import '' @ x @ '';'' \<in> set (imports_of s)"
  by (auto simp: imports_of_def)

lemma getActualType_adds_class:
  assumes "schema v (getBaseTypeNode ty) = Some (InputObjectType n)"
  shows "config_package v @ ''.'' @ n \<in> set (snd (getActualType v ty wrap s))"
  using assms by (simp add: getActualType_def Let_def emit_defs)

lemma getFieldWithTypePrefix_adds_class:
  assumes "schema v (getBaseTypeNode (field_type field)) = Some (InputObjectType n)"
  shows "config_package v @ ''.'' @ n \<in> set (snd (getFieldWithTypePrefix v field w s))"
  unfolding getFieldWithTypePrefix_def
proof (rule in_and_then_add, rule in_and_then_first)
  show "config_package v @ ''.'' @ n
      \<in> set (snd (getActualType v (field_type field) True (set_add (Imports_Input (Imports v)) s)))"
    by (rule getActualType_adds_class [OF assms])
qed (auto intro!: adds_only_intros simp: Let_def)

lemma getFieldWithTypePrefix_adds_Input:
  "Imports_Input (Imports v) \<in> set (snd (getFieldWithTypePrefix v field w s))"
proof -
  have "adds_only (\<lambda>s. getFieldWithTypePrefix v field w s)"
    by (rule adds_only_getFieldWithTypePrefix)
  have "Imports_Input (Imports v) \<in> set (set_add (Imports_Input (Imports v)) s)"
    by (simp add: set_add_def)
  moreover have "adds_only (and_then (getActualType v (field_type field) True) (\<lambda>typeToUse.
       let isNonNull = isNonNullType (field_type field) in
       and_then (if isNonNull then add (Imports_NonNull (Imports v)) else ret ()) (\<lambda>_.
         if isNonNull then ret (''@Nonnull '' @ typeToUse @ '' '' @ field_name field)
         else if w
           then ret (''Input<'' @ typeToUse @ ''> '' @ field_name field)
           else ret (typeToUse @ '' '' @ field_name field))))" (is "adds_only ?k")
    by (auto intro!: adds_only_intros simp: Let_def)
  ultimately have "Imports_Input (Imports v) \<in> set (snd (?k (set_add (Imports_Input (Imports v)) s)))"
    using adds_only_mono by blast
  then show ?thesis
    unfolding getFieldWithTypePrefix_def by (simp add: and_then_def add_def)
qed

lemma mapM_success_member:
  assumes "mapM f xs s = (Inr ys, s')" and "x \<in> set xs"
    and "\<And>s. X \<in> set (snd (f x s))" and "\<And>y. adds_only (f y)"
  shows "X \<in> set s'"
  using assms(1,2)
proof (induction xs arbitrary: s ys)
  case Nil
  then show ?case by simp
next
  case (Cons a xs)
  from Cons.prems(1) obtain y s1 ys' where fa: "f a s = (Inr y, s1)"
    and rest: "mapM f xs s1 = (Inr ys', s')"
    by (auto simp: and_then_def ret_def split: prod.splits sum.splits)
  show ?case
  proof (cases "x = a")
    case True
    with assms(3) [of s] fa have "X \<in> set s1" by simp
    moreover have "set s1 \<subseteq> set (snd (mapM f xs s1))"
      by (rule adds_only_mono) (rule adds_only_mapM, rule assms(4))
    ultimately show ?thesis using rest by auto
  next
    case False
    with Cons.prems(2) have "x \<in> set xs" by simp
    from Cons.IH [OF rest this] show ?thesis .
  qed
qed

lemma buildInputPrivateFields_adds_class:
  assumes "buildInputPrivateFields v flds s = (Inr pf, s')" and "field \<in> set flds"
    and "schema v (getBaseTypeNode (field_type field)) = Some (InputObjectType n)"
  shows "config_package v @ ''.'' @ n \<in> set s'"
proof -
  from assms(1) obtain ss where
    m: "mapM (\<lambda>field. and_then (getFieldWithTypePrefix v field True)
                (\<lambda>fieldType. ret (''private final '' @ fieldType @ '';''))) flds s = (Inr ss, s')"
    unfolding buildInputPrivateFields_def
    by (auto elim!: and_then_InrE simp: ret_def)
  show ?thesis
  proof (rule mapM_success_member [OF m assms(2)])
    fix s0
    show "config_package v @ ''.'' @ n \<in> set (snd (and_then (getFieldWithTypePrefix v field True)
                (\<lambda>fieldType. ret (''private final '' @ fieldType @ '';'')) s0))"
      by (rule in_and_then_first [OF getFieldWithTypePrefix_adds_class [OF assms(3)]])
         (rule adds_only_ret)
  next
    fix y
    show "adds_only (and_then (getFieldWithTypePrefix v y True)
                (\<lambda>fieldType. ret (''private final '' @ fieldType @ '';'')))"
      by (auto intro!: adds_only_intros)
  qed
qed

lemma InputObjectTypeDefinition_adds_class:
  assumes "InputObjectTypeDefinition v node s = (Inr classText, s')"
    and "field \<in> set (node_fields node)"
    and "schema v (getBaseTypeNode (field_type field)) = Some (InputObjectType n)"
  shows "config_package v @ ''.'' @ n \<in> set s'"
proof -
  from assms(1) obtain s2 pf s3 c s4 g s5 mo s6 b where
    1: "buildInputPrivateFields v (node_fields node) s2 = (Inr pf, s3)" and
    2: "buildInputCtor v (node_name node) (node_fields node) s3 = (Inr c, s4)" and
    3: "buildInputGetters v (node_fields node) s4 = (Inr g, s5)" and
    4: "buildMarshallerOverride v (node_fields node) s5 = (Inr mo, s6)" and
    5: "buildBuilderNestedClass v (node_name node) (node_fields node) s6 = (Inr b, s')"
    unfolding InputObjectTypeDefinition_def Let_def
    by (elim and_then_InrE) (auto simp: ret_def)
  have "config_package v @ ''.'' @ n \<in> set s3"
    by (rule buildInputPrivateFields_adds_class [OF 1 assms(2,3)])
  moreover have "set s3 \<subseteq> set s4"
    using adds_only_mono [OF adds_only_buildInputCtor, of s3 v "node_name node" "node_fields node"] 2
    by simp
  moreover have "set s4 \<subseteq> set s5"
    using adds_only_mono [OF adds_only_buildInputGetters, of s4 v "node_fields node"] 3 by simp
  moreover have "set s5 \<subseteq> set s6"
    using adds_only_mono [OF adds_only_buildMarshallerOverride, of s5 v "node_fields node"] 4 by simp
  moreover have "set s6 \<subseteq> set s'"
    using adds_only_mono [OF adds_only_buildBuilderNestedClass, of s6 v "node_name node" "node_fields node"] 5
    by simp
  ultimately show ?thesis by blast
qed

lemma buildInputPrivateFields_adds_Input:
  assumes "flds \<noteq> []"
  shows "Imports_Input (Imports v) \<in> set (snd (buildInputPrivateFields v flds s))"
proof -
  from assms obtain f fs where flds: "flds = f # fs" by (cases flds) auto
  show ?thesis
    unfolding buildInputPrivateFields_def flds mapM.simps
    by (intro in_and_then_first getFieldWithTypePrefix_adds_Input)
       (auto intro!: adds_only_intros)
qed

text \<open>
  Claim C6. Starting from an import set (a set: no element twice), the import list
  after generating a class has no duplicate line; and when generation returns the class
  text, for every field whose base type is an input object type the line importing
  \<^verbatim>\<open><package>.<type name>\<close> occurs in the list exactly once, however many fields
  refer to that type.
\<close>

theorem C6_imports_listed_once:
  assumes "distinct s"
  shows "distinct (imports_of (snd (InputObjectTypeDefinition v node s)))
    \<and> (\<forall>classText field n.
          fst (InputObjectTypeDefinition v node s) = Inr classText
          \<and> field \<in> set (node_fields node)
          \<and> schema v (getBaseTypeNode (field_type field)) = Some (InputObjectType n)
          \<longrightarrow> count_list (imports_of (snd (InputObjectTypeDefinition v node s)))
                (''import '' @ config_package v @ ''.'' @ n @ '';'') = 1)"
proof -
  have d: "distinct (snd (InputObjectTypeDefinition v node s))"
    using adds_only_InputObjectTypeDefinition assms by (rule adds_only_distinct)
  have cnt: "count_list (imports_of (snd (InputObjectTypeDefinition v node s)))
          (''import '' @ config_package v @ ''.'' @ n @ '';'') = 1"
    if "fst (InputObjectTypeDefinition v node s) = Inr classText"
      and "field \<in> set (node_fields node)"
      and "schema v (getBaseTypeNode (field_type field)) = Some (InputObjectType n)"
    for classText field n
  proof -
    from that(1) have "InputObjectTypeDefinition v node s
        = (Inr classText, snd (InputObjectTypeDefinition v node s))"
      by (cases "InputObjectTypeDefinition v node s") simp
    from InputObjectTypeDefinition_adds_class [OF this that(2,3)]
    have "count_list (imports_of (snd (InputObjectTypeDefinition v node s)))
            (''import '' @ (config_package v @ ''.'' @ n) @ '';'') = 1"
      by (rule count_imports_of [OF d])
    then show ?thesis by simp
  qed
  show ?thesis
  proof (intro conjI allI impI)
    show "distinct (imports_of (snd (InputObjectTypeDefinition v node s)))"
      using d by (rule distinct_imports_of)
  next
    fix classText field n
    assume "fst (InputObjectTypeDefinition v node s) = Inr classText
          \<and> field \<in> set (node_fields node)
          \<and> schema v (getBaseTypeNode (field_type field)) = Some (InputObjectType n)"
    then show "count_list (imports_of (snd (InputObjectTypeDefinition v node s)))
                (''import '' @ config_package v @ ''.'' @ n @ '';'') = 1"
      using cnt by blast
  qed
qed

theorem C6_imports_listed_once_witness:
  "distinct ([] :: ImportSet)
   \<and> \<not> isl (fst (InputObjectTypeDefinition sample_visitor sample_node []))
   \<and> distinct (imports_of (snd (InputObjectTypeDefinition sample_visitor sample_node [])))
   \<and> count_list (imports_of (snd (InputObjectTypeDefinition sample_visitor sample_node [])))
        ''import app.OtherInput;'' = 1"
proof -
  have d: "distinct ([] :: ImportSet)" by simp
  obtain classText where
    ok: "fst (InputObjectTypeDefinition sample_visitor sample_node []) = Inr classText"
    using succeedsD [OF succeeds_InputObjectTypeDefinition [OF sample_node_resolves]] by blast
  have f: "\<lparr>field_name = ''a'', field_type = NamedType ''OtherInput''\<rparr> \<in> set (node_fields sample_node)"
    by (simp add: sample_node_def)
  have t: "schema sample_visitor (getBaseTypeNode (field_type
      \<lparr>field_name = ''a'', field_type = NamedType ''OtherInput''\<rparr>)) = Some (InputObjectType ''OtherInput'')"
    by (simp add: sample_visitor_def sample_schema_def)
  have p: "config_package sample_visitor = ''app''"
    by (simp add: sample_visitor_def)
  note c6 = C6_imports_listed_once [OF d, of sample_visitor sample_node]
  from c6 have dd: "distinct (imports_of (snd (InputObjectTypeDefinition sample_visitor sample_node [])))"
    by (rule conjunct1)
  from c6 [THEN conjunct2, rule_format, of classText
      "\<lparr>field_name = ''a'', field_type = NamedType ''OtherInput''\<rparr>" "''OtherInput''"] ok f t
  have "count_list (imports_of (snd (InputObjectTypeDefinition sample_visitor sample_node [])))
        (''import '' @ config_package sample_visitor @ ''.'' @ ''OtherInput'' @ '';'') = 1"
    by blast
  with p have "count_list (imports_of (snd (InputObjectTypeDefinition sample_visitor sample_node [])))
        ''import app.OtherInput;'' = 1"
    by simp
  with d dd ok show ?thesis by simp
qed

text \<open>
  Claim C9. Generating a class is a function of the visitor's schema and configuration
  and of the type definition: the class text (or the failure) is the same from every
  state of the import set, the import set afterwards is the one before together with a
  set of imports that depends on nothing else, and generating the same class again on
  the same visitor leaves the import set as it is.
\<close>

theorem C9_generation_deterministic:
  "fst (InputObjectTypeDefinition v node s1) = fst (InputObjectTypeDefinition v node s2)
   \<and> set (snd (InputObjectTypeDefinition v node s1))
       = set s1 \<union> set (snd (InputObjectTypeDefinition v node []))
   \<and> snd (InputObjectTypeDefinition v node (snd (InputObjectTypeDefinition v node s1)))
       = snd (InputObjectTypeDefinition v node s1)"
  using adds_only_fst [OF adds_only_InputObjectTypeDefinition, of v node s1 s2]
    adds_only_set [OF adds_only_InputObjectTypeDefinition, of v node s1]
    adds_only_idem [OF adds_only_InputObjectTypeDefinition, of v node s1]
  by simp

text \<open>
  Claim C10. \<open>getFieldWithTypePrefix\<close> adds the \<^verbatim>\<open>Input\<close> import for every field, required
  or optional, with or without the wrapper, and even when resolving the type throws;
  so the import list after generating a class with at least one field contains the
  \<^verbatim>\<open>Input\<close> import line.
\<close>

theorem C10_Input_import_always_added:
  "Imports_Input (Imports v) \<in> set (snd (getFieldWithTypePrefix v field w s))
   \<and> (node_fields node \<noteq> [] \<longrightarrow>
        ''import '' @ Imports_Input (Imports v) @ '';''
          \<in> set (imports_of (snd (InputObjectTypeDefinition v node s))))"
proof (intro conjI impI)
  show "Imports_Input (Imports v) \<in> set (snd (getFieldWithTypePrefix v field w s))"
    by (rule getFieldWithTypePrefix_adds_Input)
next
  assume ne: "node_fields node \<noteq> []"
  have "Imports_Input (Imports v) \<in> set (snd (InputObjectTypeDefinition v node s))"
    unfolding InputObjectTypeDefinition_def Let_def
    by (intro in_and_then_add in_and_then_first buildInputPrivateFields_adds_Input ne)
       (auto intro!: adds_only_intros)
  then show "''import '' @ Imports_Input (Imports v) @ '';''
          \<in> set (imports_of (snd (InputObjectTypeDefinition v node s)))"
    by (rule in_imports_of)
qed

theorem C10_Input_import_always_added_witness:
  "node_fields required_only_node \<noteq> []
   \<and> isNonNullType (field_type (hd (node_fields required_only_node)))
   \<and> ''import com.apollographql.apollo.api.Input;''
       \<in> set (imports_of (snd (InputObjectTypeDefinition sample_visitor required_only_node [])))"
proof -
  have ne: "node_fields required_only_node \<noteq> []"
    by (simp add: required_only_node_def)
  have i: "Imports_Input (Imports sample_visitor) = ''com.apollographql.apollo.api.Input''"
    by (simp add: sample_visitor_def sample_Imports_def)
  from C10_Input_import_always_added [where v = sample_visitor and node = required_only_node and s = "[]"] ne
  have "''import '' @ Imports_Input (Imports sample_visitor) @ '';''
       \<in> set (imports_of (snd (InputObjectTypeDefinition sample_visitor required_only_node [])))"
    by blast
  with ne i show ?thesis by (simp add: required_only_node_def)
qed

end
